theory Spec2Isabelle
  imports Main
begin

section \<open>The CORS plugin of Cinnamon (src/main.ts)\<close>

text \<open>
  The plugin is one class, \<^verbatim>\<open>CinnamonCors\<close>: a constructor that normalises the options,
  the getter \<^verbatim>\<open>devModeOverride\<close>, and \<^verbatim>\<open>beforeRegisterControllers\<close>, which installs one
  of two request handlers on the web server. The handlers write response headers and
  call \<^verbatim>\<open>next()\<close>.

  Strings are byte strings; header values and origins are ASCII, and \<^verbatim>\<open>toLowerCase\<close>
  is modelled on the ASCII letters.
\<close>

subsection \<open>Option values\<close>

text \<open>
  The declared type of a header policy is \<^verbatim>\<open>"*" | "any" | string[]\<close>, optional. The handler
  tests \<^verbatim>\<open>typeof ... === "string"\<close> and treats any other string too, so the values are:
  not set, a string, an array of strings.
\<close>

datatype HeaderPolicy = Unset | Str string | Arr "string list"

text \<open>JavaScript truthiness, as the guards \<^verbatim>\<open>if (this.options.allowHeaders)\<close> read it:
  \<^verbatim>\<open>undefined\<close> and the empty string are falsy, every array (the empty one too) is truthy.\<close>

fun truthy :: "HeaderPolicy \<Rightarrow> bool" where
  "truthy Unset = False"
| "truthy (Str s) = (s \<noteq> [])"
| "truthy (Arr xs) = True"

text \<open>\<^verbatim>\<open>typeof p === "string" && ["*", "any"].includes(p)\<close>\<close>

fun isWildcard :: "HeaderPolicy \<Rightarrow> bool" where
  "isWildcard (Str s) = (s \<in> set [''*'', ''any''])"
| "isWildcard Unset = False"
| "isWildcard (Arr xs) = False"

text \<open>\<^verbatim>\<open>Array.prototype.join\<close> on an array of strings.\<close>

fun join :: "string list \<Rightarrow> string \<Rightarrow> string" where
  "join [] sep = []"
| "join [x] sep = x"
| "join (x # y # ys) sep = x @ sep @ join (y # ys) sep"

text \<open>\<^verbatim>\<open>String.prototype.toLowerCase\<close>, on ASCII: the letters A to Z (65 to 90) move up by 32.\<close>

definition toLowerChar :: "char \<Rightarrow> char" where
  "toLowerChar c =
     (if 65 \<le> (of_char c :: nat) \<and> (of_char c :: nat) \<le> 90
      then char_of ((of_char c :: nat) + 32) else c)"

definition toLowerCase :: "string \<Rightarrow> string" where
  "toLowerCase s = map toLowerChar s"

subsection \<open>The options, the framework and the plugin object\<close>

record CinnamonCorsOptions =
  allowCredentials :: "bool option"
  allowOrigins :: HeaderPolicy
  allowHeaders :: HeaderPolicy
  allowMethods :: HeaderPolicy
  exposeHeaders :: HeaderPolicy
  ignoreDevMode :: "bool option"

text \<open>What the plugin reads of the framework: the flag \<^verbatim>\<open>framework.inDevMode\<close>.\<close>

record Cinnamon =
  inDevMode :: bool

text \<open>
  The state of a \<^verbatim>\<open>CinnamonCors\<close> object at one moment: its options and the state of
  the framework it refers to. The framework is the host's and may change between the
  registration of the handler and a request, so the functions below take the state of
  the object at the moment they run.
\<close>

record CinnamonCors =
  options :: CinnamonCorsOptions
  framework :: Cinnamon

subsection \<open>The request and the response of the host\<close>

datatype error = TypeError

text \<open>
  \<^verbatim>\<open>ctx.request.get(field)\<close> is the host's accessor: the value of a request header, or
  a nullish value (\<open>None\<close>) when it has none to give. The source applies \<^verbatim>\<open>??\<close> to its
  result, so both outcomes are kept. The accessor of the host is declared to return a
  string, and for a header the request does not carry it returns the empty string,
  \<open>Some []\<close>. Of a request the model keeps this accessor alone: its values at the
  other fields stand for the rest of the request.
\<close>

record Request =
  get :: "string \<Rightarrow> string option"

record Response =
  headers :: "string \<rightharpoonup> string"
  status :: nat
  body :: string

record Context =
  request :: Request
  response :: Response

text \<open>\<^verbatim>\<open>ctx.response.set(field, val)\<close>: the response header \<open>field\<close> becomes \<open>val\<close>.\<close>

definition response_set :: "Context \<Rightarrow> string \<Rightarrow> string \<Rightarrow> Context" where
  "response_set ctx field val =
     ctx\<lparr>response := (response ctx)\<lparr>headers := (headers (response ctx))(field \<mapsto> val)\<rparr>\<rparr>"

text \<open>\<^verbatim>\<open>a ?? b\<close>: \<open>b\<close> when \<open>a\<close> is nullish, else \<open>a\<close>.\<close>

definition nullish :: "'a option \<Rightarrow> 'a option \<Rightarrow> 'a option" where
  "nullish a b = (case a of None \<Rightarrow> b | Some v \<Rightarrow> Some v)"

subsection \<open>The constructor\<close>

text \<open>The object literal \<^verbatim>\<open>{ ignoreDevMode: false }\<close>: every other option is not set.\<close>

definition defaultOptions :: CinnamonCorsOptions where
  "defaultOptions =
     \<lparr>allowCredentials = None, allowOrigins = Unset, allowHeaders = Unset,
      allowMethods = Unset, exposeHeaders = Unset, ignoreDevMode = Some False\<rparr>"

text \<open>
  \<^verbatim>\<open>constructor(framework, options?)\<close>, lines 129 to 150: \<open>ignoreDevMode\<close> becomes
  \<open>false\<close> unless it is \<open>true\<close>; an array of origins is lower-cased.
\<close>

definition CinnamonCors_new :: "Cinnamon \<Rightarrow> CinnamonCorsOptions option \<Rightarrow> CinnamonCors" where
  "CinnamonCors_new fw opts =
     (let o1 = (case opts of
                  Some o0 \<Rightarrow>
                    (if ignoreDevMode o0 \<noteq> Some True then o0\<lparr>ignoreDevMode := Some False\<rparr> else o0)
                | None \<Rightarrow> defaultOptions);
          o2 = (case allowOrigins o1 of
                  Arr xs \<Rightarrow> o1\<lparr>allowOrigins := Arr (map toLowerCase xs)\<rparr>
                | _ \<Rightarrow> o1)
      in \<lparr>options = o2, framework = fw\<rparr>)"

subsection \<open>The override test\<close>

text \<open>\<^verbatim>\<open>return !this.options.ignoreDevMode && this.framework.inDevMode;\<close>\<close>

definition devModeOverride :: "CinnamonCors \<Rightarrow> bool" where
  "devModeOverride this =
     (\<not> (ignoreDevMode (options this) = Some True) \<and> inDevMode (framework this))"

subsection \<open>The two handlers\<close>

text \<open>
  A handler is \<^verbatim>\<open>async (ctx, next) => { ...; return next(); }\<close>. It runs with the state
  \<open>this\<close> the plugin object has when the request arrives, mutates \<open>ctx\<close>, and either
  delegates, \<open>Inr (next ctx')\<close> with the context as it hands it on, or throws,
  \<open>Inl (e, ctx')\<close> with the context as the writes before the throw left it.
\<close>

type_synonym 'r outcome = "(error \<times> Context) + 'r"

text \<open>The handler of lines 171 to 191.\<close>

definition lenientHandler :: "CinnamonCors \<Rightarrow> Context \<Rightarrow> (Context \<Rightarrow> 'r) \<Rightarrow> 'r outcome" where
  "lenientHandler this ctx next =
     (let c1 = response_set ctx ''access-control-allow-credentials'' ''true'';
          c2 = response_set c1 ''access-control-allow-origin'' ''*'';
          c3 = response_set c2 ''access-control-allow-headers'' ''*'';
          c4 = response_set c3 ''access-control-allow-methods'' ''*'';
          c5 = response_set c4 ''access-control-expose-headers'' ''*''
      in Inr (next c5))"

text \<open>
  Lines 208 to 248, the block on \<open>allowOrigins\<close>. With more than one origin the request's
  origin is \<^verbatim>\<open>(ctx.request.get('Origin') ?? ctx.request.get('Host')).toLowerCase()\<close>: the
  method call on a nullish value throws a TypeError.
\<close>

definition allowOriginsBlock :: "HeaderPolicy \<Rightarrow> Context \<Rightarrow> (error \<times> Context) + Context" where
  "allowOriginsBlock p ctx =
     (if truthy p then
        (if isWildcard p then Inr (response_set ctx ''access-control-allow-origin'' ''*'')
         else
           (case p of
              Str s \<Rightarrow> Inr (response_set ctx ''access-control-allow-origin'' s)
            | Arr xs \<Rightarrow>
                (if length xs = 1
                 then Inr (response_set ctx ''access-control-allow-origin'' (xs ! 0))
                 else if length xs > 1 then
                   (case nullish (get (request ctx) ''Origin'') (get (request ctx) ''Host'') of
                      None \<Rightarrow> Inl (TypeError, ctx)
                    | Some v \<Rightarrow>
                        (let requestOrigin = toLowerCase v
                         in if requestOrigin \<in> set xs
                            then Inr (response_set ctx ''access-control-allow-origin'' requestOrigin)
                            else Inr ctx))
                 else Inr ctx)
            | Unset \<Rightarrow> Inr ctx))
      else Inr ctx)"

text \<open>
  Lines 250 to 268, and the same text again for \<open>allowMethods\<close> (270 to 288) and
  \<open>exposeHeaders\<close> (290 to 308): under the guard \<^verbatim>\<open>if (p)\<close>, the header is set to
  \<^verbatim>\<open>wildcard ? "*" : typeof p === "string" ? p : p.join(", ")\<close>. The last branch calls
  \<open>join\<close> on whatever is left; on \<^verbatim>\<open>undefined\<close> that would throw.
\<close>

definition policyBlock :: "string \<Rightarrow> HeaderPolicy \<Rightarrow> Context \<Rightarrow> (error \<times> Context) + Context" where
  "policyBlock field p ctx =
     (if truthy p then
        (if isWildcard p then Inr (response_set ctx field ''*'')
         else
           (case p of
              Str s \<Rightarrow> Inr (response_set ctx field s)
            | Arr xs \<Rightarrow> Inr (response_set ctx field (join xs '', ''))
            | Unset \<Rightarrow> Inl (TypeError, ctx)))
      else Inr ctx)"

text \<open>The handler of lines 198 to 311.\<close>

definition policyHandler :: "CinnamonCors \<Rightarrow> Context \<Rightarrow> (Context \<Rightarrow> 'r) \<Rightarrow> 'r outcome" where
  "policyHandler this ctx next =
     (let c1 = response_set ctx ''access-control-allow-origin'' ''*'';
          c2 = (if allowCredentials (options this) = Some True
                then response_set c1 ''access-control-allow-credentials'' ''true'' else c1)
      in case allowOriginsBlock (allowOrigins (options this)) c2 of
           Inl e \<Rightarrow> Inl e
         | Inr c3 \<Rightarrow>
        (case policyBlock ''access-control-allow-headers'' (allowHeaders (options this)) c3 of
           Inl e \<Rightarrow> Inl e
         | Inr c4 \<Rightarrow>
        (case policyBlock ''access-control-allow-methods'' (allowMethods (options this)) c4 of
           Inl e \<Rightarrow> Inl e
         | Inr c5 \<Rightarrow>
        (case policyBlock ''access-control-expose-headers'' (exposeHeaders (options this)) c5 of
           Inl e \<Rightarrow> Inl e
         | Inr c6 \<Rightarrow> Inr (next c6)))))"

subsection \<open>Registration\<close>

text \<open>
  \<^verbatim>\<open>beforeRegisterControllers\<close>, lines 165 to 312: the override test runs here, with
  the state \<open>this\<close> of the plugin at registration, and decides which handler
  \<^verbatim>\<open>server.use\<close> receives. The result is that handler.
\<close>

definition beforeRegisterControllers ::
    "CinnamonCors \<Rightarrow> CinnamonCors \<Rightarrow> Context \<Rightarrow> (Context \<Rightarrow> 'r) \<Rightarrow> 'r outcome" where
  "beforeRegisterControllers this =
     (if devModeOverride this then lenientHandler else policyHandler)"

section \<open>Vocabulary of the statements\<close>

subsection \<open>What a handler leaves behind\<close>

text \<open>
  With \<open>next\<close> the identity, the outcome of a handler holds a context either way: the one
  handed on, or the one at the throw.
\<close>

definition contextAfter :: "Context outcome \<Rightarrow> Context" where
  "contextAfter r = (case r of Inl (e, c) \<Rightarrow> c | Inr c \<Rightarrow> c)"


text \<open>\<open>allowOrigins\<close> is an array of more than one origin: the branch of line 229.\<close>

fun multipleOrigins :: "HeaderPolicy \<Rightarrow> bool" where
  "multipleOrigins (Arr xs) = (length xs > 1)"
| "multipleOrigins (Str s) = False"
| "multipleOrigins Unset = False"

text \<open>The host's accessor gives a nullish value for \<open>Origin\<close> and for \<open>Host\<close>.\<close>

definition noOrigin :: "Context \<Rightarrow> bool" where
  "noOrigin ctx = (get (request ctx) ''Origin'' = None \<and> get (request ctx) ''Host'' = None)"

text \<open>
  The value of one of the headers \<open>Access-Control-Allow-Headers\<close>, \<open>-Allow-Methods\<close> and
  \<open>-Expose-Headers\<close> after the handler, in the words of the specification: \<open>before\<close> is
  the value the response had on entry (\<open>None\<close>: no such header), kept when the handler
  omits the header; a wildcard marker gives \<open>*\<close>; a list gives its entries joined with
  a comma and a space; any other string is passed through. The empty string stands
  with the option that is not set.
\<close>

fun specHeader :: "HeaderPolicy \<Rightarrow> string option \<Rightarrow> string option" where
  "specHeader Unset before = before"
| "specHeader (Str s) before =
     (if s = [] then before else if s = ''*'' \<or> s = ''any'' then Some ''*'' else Some s)"
| "specHeader (Arr xs) before = Some (join xs '', '')"

subsection \<open>The handlers in parts\<close>

text \<open>
  The proofs take \<open>policyHandler\<close> apart: the two writes before the block on
  \<open>allowOrigins\<close> (lines 199 to 206), the write of one policy block, the three policy
  blocks in a row, and the five writes of \<open>lenientHandler\<close>. Lemmas \<open>policyBlock_written\<close>,
  \<open>policyHandler_closed\<close> and \<open>handler_closed\<close> below show that the parts make up the
  handlers as defined above.
\<close>

definition presets :: "CinnamonCors \<Rightarrow> Context \<Rightarrow> Context" where
  "presets this ctx =
     (if allowCredentials (options this) = Some True
      then response_set (response_set ctx ''access-control-allow-origin'' ''*'')
             ''access-control-allow-credentials'' ''true''
      else response_set ctx ''access-control-allow-origin'' ''*'')"

definition written :: "string \<Rightarrow> HeaderPolicy \<Rightarrow> Context \<Rightarrow> Context" where
  "written field p c =
     (if truthy p
      then response_set c field
             (if isWildcard p then ''*''
              else (case p of Str s \<Rightarrow> s | Arr xs \<Rightarrow> join xs '', '' | Unset \<Rightarrow> []))
      else c)"

definition policies :: "CinnamonCors \<Rightarrow> Context \<Rightarrow> Context" where
  "policies this c =
     written ''access-control-expose-headers'' (exposeHeaders (options this))
       (written ''access-control-allow-methods'' (allowMethods (options this))
         (written ''access-control-allow-headers'' (allowHeaders (options this)) c))"

definition evaluated :: "CinnamonCors \<Rightarrow> Context \<Rightarrow> Context" where
  "evaluated this ctx =
     policies this
       (contextAfter (allowOriginsBlock (allowOrigins (options this)) (presets this ctx)))"

definition lenient :: "Context \<Rightarrow> Context" where
  "lenient ctx =
     response_set (response_set (response_set (response_set (response_set ctx
       ''access-control-allow-credentials'' ''true'')
       ''access-control-allow-origin'' ''*'')
       ''access-control-allow-headers'' ''*'')
       ''access-control-allow-methods'' ''*'')
       ''access-control-expose-headers'' ''*''"

subsection \<open>Concrete inputs\<close>

text \<open>The framework in development and in production mode.\<close>

definition devFramework :: Cinnamon where
  "devFramework = \<lparr>inDevMode = True\<rparr>"

definition prodFramework :: Cinnamon where
  "prodFramework = \<lparr>inDevMode = False\<rparr>"

text \<open>The options object \<^verbatim>\<open>{}\<close>, and one with two origins.\<close>

definition noOptions :: CinnamonCorsOptions where
  "noOptions =
     \<lparr>allowCredentials = None, allowOrigins = Unset, allowHeaders = Unset,
      allowMethods = Unset, exposeHeaders = Unset, ignoreDevMode = None\<rparr>"

definition twoOrigins :: CinnamonCorsOptions where
  "twoOrigins = noOptions\<lparr>allowOrigins := Arr [''https://a.com'', ''https://b.com'']\<rparr>"

text \<open>One with two origins written as a \<open>Host\<close> header gives them.\<close>

definition twoHosts :: CinnamonCorsOptions where
  "twoHosts = noOptions\<lparr>allowOrigins := Arr [''a.com'', ''b.com'']\<rparr>"

text \<open>
  A request for which the host reads \<open>origin\<close> as its \<open>Origin\<close> header and \<open>host\<close> as its
  \<open>Host\<close> header, with a response that has no header yet.
\<close>

definition requestContext :: "string option \<Rightarrow> string option \<Rightarrow> Context" where
  "requestContext origin host =
     \<lparr>request = \<lparr>get = (\<lambda>field. if field = ''Origin'' then origin
                               else if field = ''Host'' then host else None)\<rparr>,
      response = \<lparr>headers = Map.empty, status = 200, body = []\<rparr>\<rparr>"

section \<open>Lemmas\<close>

subsection \<open>Writing a header touches that header only\<close>

lemma response_set_simps:
  "headers (response (response_set c f v)) = (headers (response c))(f \<mapsto> v)"
  "request (response_set c f v) = request c"
  "status (response (response_set c f v)) = status (response c)"
  "body (response (response_set c f v)) = body (response c)"
  by (simp_all add: response_set_def)

lemma response_response_set:
  "response (response_set c f v) = (response c)\<lparr>headers := (headers (response c))(f \<mapsto> v)\<rparr>"
  by (simp add: response_set_def)

subsection \<open>A policy block never throws\<close>

lemma policyBlock_written: "policyBlock f p c = Inr (written f p c)"
  by (cases p) (simp_all add: policyBlock_def written_def)


lemma written_other:
  "g \<noteq> f \<Longrightarrow> headers (response (written f p c)) g = headers (response c) g"
  by (simp add: written_def response_set_simps)

lemma written_eq_specHeader:
  "headers (response (written f p c)) f = specHeader p (headers (response c) f)"
  by (cases p) (simp_all add: written_def response_set_simps)

lemma written_response:
  "response c2 = response c \<Longrightarrow> response (written f p c2) = response (written f p c)"
  by (simp add: written_def response_response_set)


lemma policies_other:
  "g \<noteq> ''access-control-allow-headers'' \<Longrightarrow> g \<noteq> ''access-control-allow-methods'' \<Longrightarrow>
   g \<noteq> ''access-control-expose-headers'' \<Longrightarrow>
   headers (response (policies this c)) g = headers (response c) g"
  by (simp add: policies_def written_other)

lemma policies_headers:
  "headers (response (policies this c)) ''access-control-allow-headers'' =
     specHeader (allowHeaders (options this))
       (headers (response c) ''access-control-allow-headers'')"
  "headers (response (policies this c)) ''access-control-allow-methods'' =
     specHeader (allowMethods (options this))
       (headers (response c) ''access-control-allow-methods'')"
  "headers (response (policies this c)) ''access-control-expose-headers'' =
     specHeader (exposeHeaders (options this))
       (headers (response c) ''access-control-expose-headers'')"
  by (simp_all add: policies_def written_eq_specHeader written_other)

lemma policies_response:
  "response c2 = response c \<Longrightarrow> response (policies this c2) = response (policies this c)"
  unfolding policies_def by (intro written_response)

subsection \<open>The writes before the block on the origins\<close>

lemma presets_frame:
  "request (presets this c) = request c"
  "status (response (presets this c)) = status (response c)"
  "body (response (presets this c)) = body (response c)"
  by (simp_all add: presets_def response_set_simps)

lemma presets_headers:
  "headers (response (presets this c)) =
     (if allowCredentials (options this) = Some True
      then (headers (response c))(''access-control-allow-origin'' \<mapsto> ''*'',
             ''access-control-allow-credentials'' \<mapsto> ''true'')
      else (headers (response c))(''access-control-allow-origin'' \<mapsto> ''*''))"
  by (simp add: presets_def response_set_simps)


lemma presets_credentials:
  "headers (response (presets this ctx)) ''access-control-allow-credentials'' =
     (if allowCredentials (options this) = Some True then Some ''true''
      else headers (response ctx) ''access-control-allow-credentials'')"
  by (simp add: presets_headers)

lemma presets_response:
  "response c2 = response c \<Longrightarrow> response (presets this c2) = response (presets this c)"
  by (simp add: presets_def response_response_set)

subsection \<open>The block on the origins\<close>

lemma allowOriginsBlock_eq:
  "allowOriginsBlock p c =
     (if multipleOrigins p \<and> noOrigin c then Inl (TypeError, c)
      else Inr (contextAfter (allowOriginsBlock p c)))"
  by (cases p)
     (auto simp: allowOriginsBlock_def nullish_def noOrigin_def contextAfter_def Let_def
       split: option.splits)


lemma origins_other:
  "g \<noteq> ''access-control-allow-origin'' \<Longrightarrow>
   headers (response (contextAfter (allowOriginsBlock p c))) g = headers (response c) g"
  by (cases p;
      simp add: allowOriginsBlock_def contextAfter_def Let_def response_set_simps
        split: option.splits)

lemma origins_multi:
  assumes "length ys > 1"
    and "nullish (get (request c) ''Origin'') (get (request c) ''Host'') = Some v"
  shows "headers (response (contextAfter (allowOriginsBlock (Arr ys) c)))
           ''access-control-allow-origin'' =
           (if toLowerCase v \<in> set ys then Some (toLowerCase v)
            else headers (response c) ''access-control-allow-origin'')"
  using assms
  by (simp add: allowOriginsBlock_def Let_def contextAfter_def response_set_simps)

lemma origins_few:
  "headers (response (contextAfter (allowOriginsBlock Unset c))) ''access-control-allow-origin'' =
     headers (response c) ''access-control-allow-origin''"
  "headers (response (contextAfter (allowOriginsBlock (Arr []) c)))
     ''access-control-allow-origin'' = headers (response c) ''access-control-allow-origin''"
  "headers (response (contextAfter (allowOriginsBlock (Str s) c)))
     ''access-control-allow-origin'' =
     (if s = [] then headers (response c) ''access-control-allow-origin''
      else if s = ''*'' \<or> s = ''any'' then Some ''*'' else Some s)"
  by (simp_all add: allowOriginsBlock_def contextAfter_def response_set_simps)

lemma origins_response:
  assumes "response c2 = response c"
    and "get (request c2) ''Origin'' = get (request c) ''Origin''"
    and "get (request c2) ''Host'' = get (request c) ''Host''"
  shows "response (contextAfter (allowOriginsBlock p c2)) =
         response (contextAfter (allowOriginsBlock p c))"
  using assms
  by (cases p)
     (simp_all add: allowOriginsBlock_def contextAfter_def Let_def response_response_set
        split: option.splits)

lemma nullish_noOrigin:
  "(nullish (get (request c) ''Origin'') (get (request c) ''Host'') = None) = noOrigin c"
  by (simp add: nullish_def noOrigin_def split: option.splits)

subsection \<open>The handlers in closed form\<close>

lemma policyHandler_closed:
  "policyHandler this ctx next =
    (if multipleOrigins (allowOrigins (options this)) \<and> noOrigin ctx
     then Inl (TypeError, presets this ctx)
     else Inr (next (evaluated this ctx)))"
proof -
  have split: "policyHandler this ctx next =
    (case allowOriginsBlock (allowOrigins (options this)) (presets this ctx) of
       Inl e \<Rightarrow> Inl e
     | Inr c3 \<Rightarrow> Inr (next (policies this c3)))"
    by (simp add: policyHandler_def Let_def policyBlock_written presets_def policies_def
        split: sum.splits)
  have "noOrigin (presets this ctx) = noOrigin ctx"
    by (simp add: noOrigin_def presets_frame)
  then show ?thesis
    unfolding evaluated_def by (subst split, subst allowOriginsBlock_eq) simp
qed

lemma handler_closed:
  "beforeRegisterControllers reg this ctx next =
     (if devModeOverride reg then Inr (next (lenient ctx))
      else if multipleOrigins (allowOrigins (options this)) \<and> noOrigin ctx
           then Inl (TypeError, presets this ctx)
           else Inr (next (evaluated this ctx)))"
  by (simp add: beforeRegisterControllers_def policyHandler_closed lenientHandler_def
      lenient_def)


lemma lenient_response:
  "response c2 = response c \<Longrightarrow> response (lenient c2) = response (lenient c)"
  by (simp add: lenient_def response_response_set)



lemma evaluated_response:
  assumes "response c2 = response c"
    and "get (request c2) ''Origin'' = get (request c) ''Origin''"
    and "get (request c2) ''Host'' = get (request c) ''Host''"
  shows "response (evaluated this c2) = response (evaluated this c)"
  unfolding evaluated_def
  by (intro policies_response origins_response presets_response)
     (simp_all add: assms presets_frame)

lemma evaluated_policy_headers:
  "headers (response (evaluated this ctx)) ''access-control-allow-headers'' =
     specHeader (allowHeaders (options this))
       (headers (response ctx) ''access-control-allow-headers'')"
  "headers (response (evaluated this ctx)) ''access-control-allow-methods'' =
     specHeader (allowMethods (options this))
       (headers (response ctx) ''access-control-allow-methods'')"
  "headers (response (evaluated this ctx)) ''access-control-expose-headers'' =
     specHeader (exposeHeaders (options this))
       (headers (response ctx) ''access-control-expose-headers'')"
  by (simp_all add: evaluated_def policies_headers origins_other presets_headers)

lemma evaluated_credentials:
  "headers (response (evaluated this ctx)) ''access-control-allow-credentials'' =
     (if allowCredentials (options this) = Some True then Some ''true''
      else headers (response ctx) ''access-control-allow-credentials'')"
  by (simp add: evaluated_def policies_other origins_other presets_headers)

lemma evaluated_origin:
  "headers (response (evaluated this ctx)) ''access-control-allow-origin'' =
   headers (response (contextAfter
       (allowOriginsBlock (allowOrigins (options this)) (presets this ctx))))
     ''access-control-allow-origin''"
  by (simp add: evaluated_def policies_other)

lemma handler_reads:
  assumes "response ctx2 = response ctx"
    and "get (request ctx2) ''Origin'' = get (request ctx) ''Origin''"
    and "get (request ctx2) ''Host'' = get (request ctx) ''Host''"
  shows "response (contextAfter (beforeRegisterControllers reg this ctx2 id)) =
         response (contextAfter (beforeRegisterControllers reg this ctx id))"
proof -
  have n: "noOrigin ctx2 = noOrigin ctx"
    using assms(2,3) by (simp add: noOrigin_def)
  have l: "response (lenient ctx2) = response (lenient ctx)"
    using assms(1) by (rule lenient_response)
  have p: "response (presets this ctx2) = response (presets this ctx)"
    using assms(1) by (rule presets_response)
  have e: "response (evaluated this ctx2) = response (evaluated this ctx)"
    using assms by (rule evaluated_response)
  show ?thesis
    by (simp add: handler_closed contextAfter_def n l p e)
qed

subsection \<open>What the constructor stores\<close>

lemma new_Some_fields:
  "allowCredentials (options (CinnamonCors_new fw (Some opts))) = allowCredentials opts"
  "allowHeaders (options (CinnamonCors_new fw (Some opts))) = allowHeaders opts"
  "allowMethods (options (CinnamonCors_new fw (Some opts))) = allowMethods opts"
  "exposeHeaders (options (CinnamonCors_new fw (Some opts))) = exposeHeaders opts"
  by (cases "allowOrigins opts"; simp add: CinnamonCors_new_def Let_def)+

lemma new_Some_allowOrigins:
  "allowOrigins (options (CinnamonCors_new fw (Some opts))) =
     (case allowOrigins opts of
        Arr xs \<Rightarrow> Arr (map toLowerCase xs) | Str s \<Rightarrow> Str s | Unset \<Rightarrow> Unset)"
  by (cases "allowOrigins opts"; simp add: CinnamonCors_new_def Let_def)

lemma new_None_options: "options (CinnamonCors_new fw None) = defaultOptions"
  by (simp add: CinnamonCors_new_def Let_def defaultOptions_def)

lemma new_framework: "framework (CinnamonCors_new fw cfg) = fw"
  by (simp add: CinnamonCors_new_def Let_def)

lemma new_ignoreDevMode:
  "ignoreDevMode (options (CinnamonCors_new fw cfg)) =
     (case cfg of None \<Rightarrow> Some False
      | Some opts \<Rightarrow> if ignoreDevMode opts = Some True then Some True else Some False)"
  by (cases cfg; cases "allowOrigins (the cfg)";
      simp add: CinnamonCors_new_def Let_def defaultOptions_def)

lemma multipleOrigins_new:
  "multipleOrigins (allowOrigins (options (CinnamonCors_new fw (Some opts)))) =
     multipleOrigins (allowOrigins opts)"
  by (cases "allowOrigins opts"; simp add: new_Some_allowOrigins)

subsection \<open>The concrete inputs\<close>


lemma lower_hosts:
  "toLowerCase ''a.com'' = ''a.com''"
  "toLowerCase ''b.com'' = ''b.com''"
  "toLowerCase [] = []"
  by code_simp+

lemma twoHosts_simps:
  "allowOrigins twoHosts = Arr [''a.com'', ''b.com'']"
  "allowCredentials twoHosts = None"
  "allowHeaders twoHosts = Unset"
  "allowMethods twoHosts = Unset"
  "exposeHeaders twoHosts = Unset"
  by (simp_all add: twoHosts_def noOptions_def)

lemma requestContext_simps:
  "get (request (requestContext origin host)) ''Origin'' = origin"
  "get (request (requestContext origin host)) ''Host'' = host"
  "headers (response (requestContext origin host)) = Map.empty"
  "status (response (requestContext origin host)) = 200"
  "body (response (requestContext origin host)) = []"
  by (simp_all add: requestContext_def)


lemma override_examples:
  "devModeOverride (CinnamonCors_new devFramework None)"
  "\<not> devModeOverride (CinnamonCors_new prodFramework cfg)"
  "\<not> devModeOverride (CinnamonCors_new fw (Some (opts\<lparr>ignoreDevMode := Some True\<rparr>)))"
  by (simp_all add: devModeOverride_def new_ignoreDevMode new_framework devFramework_def
      prodFramework_def split: option.splits)

section \<open>The claims\<close>

text \<open>
  In every statement \<open>reg\<close> is the state of the plugin object when
  \<open>beforeRegisterControllers\<close> runs and \<open>this\<close> its state when the request is handled;
  \<open>options this = options reg\<close> says that the configuration was not touched in between.
  The override is inactive when \<open>\<not> devModeOverride reg\<close>: the test is the one of
  registration, the only one the source makes.
\<close>

subsection \<open>C1: when the override test runs\<close>

text \<open>
  C1, as amended. The override test runs once, in \<open>beforeRegisterControllers\<close>, and fixes
  the handler that is installed: for every request, the outcome (the headers written,
  the delegation) is the same whatever the framework's flag is when the request is
  handled. Two states of the plugin object with the same options differ in the
  framework's state only.
\<close>

theorem handler_fixed_at_registration:
  "options this = options this' \<Longrightarrow>
   beforeRegisterControllers reg this ctx next = beforeRegisterControllers reg this' ctx next"
  by (simp add: beforeRegisterControllers_def lenientHandler_def policyHandler_def
      cong: sum.case_cong)

text \<open>
  Witness for C1: registered in development mode with no options, the handler gives the
  same outcome for a request handled in production mode and one handled in development
  mode.
\<close>

theorem handler_fixed_at_registration_witness:
  "options (CinnamonCors_new prodFramework None) = options (CinnamonCors_new devFramework None) \<and>
   beforeRegisterControllers (CinnamonCors_new devFramework None)
       (CinnamonCors_new prodFramework None) (requestContext None None) id =
   beforeRegisterControllers (CinnamonCors_new devFramework None)
       (CinnamonCors_new devFramework None) (requestContext None None) id"
proof -
  have h: "options (CinnamonCors_new prodFramework None) =
           options (CinnamonCors_new devFramework None)"
    by (simp add: new_None_options)
  show ?thesis
    using h handler_fixed_at_registration [OF h] by simp
qed

text \<open>
  Counterexample to C1 as stated. Two requests are handled while the framework is in
  production mode, so the override test is false at both. The plugin registered in
  development mode answers with \<open>Access-Control-Allow-Credentials: true\<close>, the plugin
  registered in production mode does not write that header: the headers follow the flag
  at registration, not the flag at the request.
\<close>

theorem override_not_retested_per_request:
  "\<not> devModeOverride (CinnamonCors_new prodFramework None) \<and>
   headers (response (contextAfter
      (beforeRegisterControllers (CinnamonCors_new devFramework None)
         (CinnamonCors_new prodFramework None) (requestContext None None) id)))
      ''access-control-allow-credentials'' = Some ''true'' \<and>
   headers (response (contextAfter
      (beforeRegisterControllers (CinnamonCors_new prodFramework None)
         (CinnamonCors_new prodFramework None) (requestContext None None) id)))
      ''access-control-allow-credentials'' = None"
  by (simp add: override_examples handler_closed contextAfter_def lenient_def response_set_simps
      new_None_options defaultOptions_def evaluated_credentials requestContext_simps)

subsection \<open>C2: the lenient headers\<close>

text \<open>
  C2. When the override is active, the handler sets the five headers to the lenient
  values (credentials \<open>true\<close>, the four others \<open>*\<close>), touches nothing else and delegates,
  whatever the options and the request are. For a plugin built by the constructor the
  override is active exactly when the framework is in development mode and
  \<open>ignoreDevMode\<close> was not given as \<open>true\<close> (no options, not set, or \<open>false\<close>); with
  \<open>ignoreDevMode\<close> \<open>true\<close> it is inactive in development mode too.
\<close>

theorem lenient_headers_under_override:
  "(devModeOverride reg \<longrightarrow>
      beforeRegisterControllers reg this ctx next =
        Inr (next (ctx\<lparr>response := (response ctx)\<lparr>headers := (headers (response ctx))
          (''access-control-allow-credentials'' \<mapsto> ''true'',
           ''access-control-allow-origin'' \<mapsto> ''*'',
           ''access-control-allow-headers'' \<mapsto> ''*'',
           ''access-control-allow-methods'' \<mapsto> ''*'',
           ''access-control-expose-headers'' \<mapsto> ''*'')\<rparr>\<rparr>))) \<and>
   devModeOverride (CinnamonCors_new fw cfg) =
     (inDevMode fw \<and>
      (case cfg of None \<Rightarrow> True | Some opts \<Rightarrow> ignoreDevMode opts \<noteq> Some True))"
proof (intro conjI impI)
  assume "devModeOverride reg"
  then show "beforeRegisterControllers reg this ctx next =
        Inr (next (ctx\<lparr>response := (response ctx)\<lparr>headers := (headers (response ctx))
          (''access-control-allow-credentials'' \<mapsto> ''true'',
           ''access-control-allow-origin'' \<mapsto> ''*'',
           ''access-control-allow-headers'' \<mapsto> ''*'',
           ''access-control-allow-methods'' \<mapsto> ''*'',
           ''access-control-expose-headers'' \<mapsto> ''*'')\<rparr>\<rparr>))"
    by (simp add: beforeRegisterControllers_def lenientHandler_def response_set_def)
next
  show "devModeOverride (CinnamonCors_new fw cfg) =
     (inDevMode fw \<and>
      (case cfg of None \<Rightarrow> True | Some opts \<Rightarrow> ignoreDevMode opts \<noteq> Some True))"
    by (simp add: devModeOverride_def new_ignoreDevMode new_framework split: option.splits)
qed

text \<open>
  Witness for C2: two origins configured, development mode. The override is active and
  the response carries the five lenient headers and no origin of the list; with
  \<open>ignoreDevMode\<close> \<open>true\<close> the override is inactive.
\<close>

theorem lenient_headers_under_override_witness:
  "devModeOverride (CinnamonCors_new devFramework (Some twoOrigins)) \<and>
   beforeRegisterControllers (CinnamonCors_new devFramework (Some twoOrigins))
       (CinnamonCors_new devFramework (Some twoOrigins)) (requestContext None None) id =
     Inr (requestContext None None
            \<lparr>response := \<lparr>headers =
               [''access-control-allow-credentials'' \<mapsto> ''true'',
                ''access-control-allow-origin'' \<mapsto> ''*'',
                ''access-control-allow-headers'' \<mapsto> ''*'',
                ''access-control-allow-methods'' \<mapsto> ''*'',
                ''access-control-expose-headers'' \<mapsto> ''*''], status = 200, body = []\<rparr>\<rparr>) \<and>
   \<not> devModeOverride
       (CinnamonCors_new devFramework (Some (twoOrigins\<lparr>ignoreDevMode := Some True\<rparr>)))"
proof -
  have d: "devModeOverride (CinnamonCors_new devFramework (Some twoOrigins))"
    by (simp add: devModeOverride_def new_ignoreDevMode new_framework devFramework_def
        twoOrigins_def noOptions_def)
  show ?thesis
    using d
      lenient_headers_under_override [of "CinnamonCors_new devFramework (Some twoOrigins)"
        "CinnamonCors_new devFramework (Some twoOrigins)" "requestContext None None" id
        devFramework "Some (twoOrigins\<lparr>ignoreDevMode := Some True\<rparr>)"]
    by (simp add: requestContext_def devFramework_def)
qed

subsection \<open>C3: more than one origin, none matched\<close>



subsection \<open>C5: more than one origin, one matched\<close>

text \<open>
  C5, a defect of the code. The claim, like the README (the request origin is the one
  set by the \<open>Origin\<close> request header, falling back to the \<open>Host\<close> request header), has
  the \<open>Host\<close> header matched when the request carries no \<open>Origin\<close> header. Line 232
  makes the fallback with \<^verbatim>\<open>??\<close>, which passes on a nullish value only, and the host
  reads a missing header as the empty string. With the origins \<open>a.com\<close> and \<open>b.com\<close>
  in production mode, a request with no \<open>Origin\<close> header and \<open>Host: b.com\<close> leaves
  \<open>Access-Control-Allow-Origin\<close> at the pre-set \<open>*\<close>: the \<open>Host\<close> header is not
  consulted. Only for a nullish read of \<open>Origin\<close> is the header \<open>b.com\<close>, as the claim
  has it.
\<close>

theorem host_fallback_skipped_for_empty_origin:
  "headers (response (contextAfter
      (beforeRegisterControllers (CinnamonCors_new prodFramework (Some twoHosts))
         (CinnamonCors_new prodFramework (Some twoHosts))
         (requestContext (Some []) (Some ''b.com'')) id)))
      ''access-control-allow-origin'' = Some ''*'' \<and>
   headers (response (contextAfter
      (beforeRegisterControllers (CinnamonCors_new prodFramework (Some twoHosts))
         (CinnamonCors_new prodFramework (Some twoHosts))
         (requestContext None (Some ''b.com'')) id)))
      ''access-control-allow-origin'' = Some ''b.com''"
  by (simp add: handler_closed override_examples new_Some_allowOrigins new_Some_fields
      twoHosts_simps lower_hosts noOrigin_def requestContext_simps evaluated_def policies_def
      written_def presets_def allowOriginsBlock_def nullish_def contextAfter_def Let_def
      response_set_simps)

text \<open>
  What the handler does with the value it reads: the configuration gives \<open>allowOrigins\<close>
  as a list \<open>xs\<close> of more than one origin, the override is inactive, and the value \<open>v\<close>
  is the read of \<open>Origin\<close>, or the read of \<open>Host\<close> when the read of \<open>Origin\<close> is nullish.
  If \<open>v\<close> is equal to an entry \<open>e\<close> of the list, case ignored, the handler delegates and
  \<open>Access-Control-Allow-Origin\<close> is the matched origin in lower case.
\<close>

lemma matching_read_is_echoed:
  assumes "reg = CinnamonCors_new fw (Some opts)"
    and "allowOrigins opts = Arr xs" and "length xs > 1"
    and "\<not> devModeOverride reg" and "options this = options reg"
    and "get (request ctx) ''Origin'' = Some v \<or>
         get (request ctx) ''Origin'' = None \<and> get (request ctx) ''Host'' = Some v"
    and "e \<in> set xs" and "toLowerCase e = toLowerCase v"
  shows "\<exists>c'. beforeRegisterControllers reg this ctx next = Inr (next c') \<and>
           headers (response c') ''access-control-allow-origin'' = Some (toLowerCase e)"
proof -
  have rd0: "nullish (get (request ctx) ''Origin'') (get (request ctx) ''Host'') = Some v"
    using assms(6) by (auto simp add: nullish_def)
  have ao: "allowOrigins (options this) = Arr (map toLowerCase xs)"
    using assms(1,2,5) by (simp add: new_Some_allowOrigins)
  have len: "length (map toLowerCase xs) > 1"
    using assms(3) by simp
  have rd: "nullish (get (request (presets this ctx)) ''Origin'')
              (get (request (presets this ctx)) ''Host'') = Some v"
    using rd0 by (simp add: presets_frame)
  have "toLowerCase e \<in> toLowerCase ` set xs"
    using assms(7) by (rule imageI)
  then have mem: "toLowerCase v \<in> set (map toLowerCase xs)"
    using assms(8) by simp
  have "\<not> noOrigin ctx"
    using rd0 nullish_noOrigin [of ctx] by simp
  then have run: "beforeRegisterControllers reg this ctx next = Inr (next (evaluated this ctx))"
    using assms(4) by (simp add: handler_closed)
  have "headers (response (evaluated this ctx)) ''access-control-allow-origin'' =
          Some (toLowerCase e)"
    using mem assms(8) by (simp add: evaluated_origin ao origins_multi [OF len rd] del: set_map)
  with run show ?thesis by blast
qed

subsection \<open>C7: the credentials header\<close>

text \<open>
  C7. With the override inactive, whether the handler delegates or throws, the context
  it leaves has \<open>Access-Control-Allow-Credentials\<close> equal to \<open>true\<close> when \<open>allowCredentials\<close>
  is truthy, and otherwise as the response had it on entry: the handler writes the
  header exactly when the option is truthy, never with another value, so a response
  that did not carry the header does not carry it afterwards and none gets the value
  \<open>false\<close> from the handler. No options at all count as the option not set.
\<close>

theorem credentials_header_iff_truthy:
  assumes "reg = CinnamonCors_new fw cfg"
    and "\<not> devModeOverride reg" and "options this = options reg"
  shows "\<exists>c'. (beforeRegisterControllers reg this ctx next = Inr (next c') \<or>
               beforeRegisterControllers reg this ctx next = Inl (TypeError, c')) \<and>
           headers (response c') ''access-control-allow-credentials'' =
             (if (case cfg of None \<Rightarrow> False | Some opts \<Rightarrow> allowCredentials opts = Some True)
              then Some ''true''
              else headers (response ctx) ''access-control-allow-credentials'')"
proof -
  have ac: "(allowCredentials (options this) = Some True) =
        (case cfg of None \<Rightarrow> False | Some opts \<Rightarrow> allowCredentials opts = Some True)"
    using assms(1,3)
    by (cases cfg) (simp_all add: new_None_options new_Some_fields defaultOptions_def)
  show ?thesis
  proof (cases "multipleOrigins (allowOrigins (options this)) \<and> noOrigin ctx")
    case True
    then have "beforeRegisterControllers reg this ctx next = Inl (TypeError, presets this ctx)"
      using assms(2) by (simp add: handler_closed)
    then show ?thesis
      using presets_credentials [of this ctx] ac by auto
  next
    case False
    then have "beforeRegisterControllers reg this ctx next = Inr (next (evaluated this ctx))"
      using assms(2) by (auto simp add: handler_closed)
    then show ?thesis
      using evaluated_credentials [of this ctx] ac by auto
  qed
qed

text \<open>
  Witness for C7, in production mode: with \<open>allowCredentials: true\<close> the header is
  \<open>true\<close>; with no options the response has no such header.
\<close>

theorem credentials_header_iff_truthy_witness:
  "(\<exists>c'. (beforeRegisterControllers
             (CinnamonCors_new prodFramework (Some (noOptions\<lparr>allowCredentials := Some True\<rparr>)))
             (CinnamonCors_new prodFramework (Some (noOptions\<lparr>allowCredentials := Some True\<rparr>)))
             (requestContext None None) id = Inr (id c') \<or>
           beforeRegisterControllers
             (CinnamonCors_new prodFramework (Some (noOptions\<lparr>allowCredentials := Some True\<rparr>)))
             (CinnamonCors_new prodFramework (Some (noOptions\<lparr>allowCredentials := Some True\<rparr>)))
             (requestContext None None) id = Inl (TypeError, c')) \<and>
        headers (response c') ''access-control-allow-credentials'' = Some ''true'') \<and>
   (\<exists>c'. (beforeRegisterControllers (CinnamonCors_new prodFramework None)
             (CinnamonCors_new prodFramework None) (requestContext None None) id = Inr (id c') \<or>
           beforeRegisterControllers (CinnamonCors_new prodFramework None)
             (CinnamonCors_new prodFramework None) (requestContext None None) id
             = Inl (TypeError, c')) \<and>
        headers (response c') ''access-control-allow-credentials'' = None)"
  using credentials_header_iff_truthy [of
      "CinnamonCors_new prodFramework (Some (noOptions\<lparr>allowCredentials := Some True\<rparr>))"
      prodFramework "Some (noOptions\<lparr>allowCredentials := Some True\<rparr>)"
      "CinnamonCors_new prodFramework (Some (noOptions\<lparr>allowCredentials := Some True\<rparr>))"
      "requestContext None None" id]
    credentials_header_iff_truthy [of "CinnamonCors_new prodFramework None"
      prodFramework None "CinnamonCors_new prodFramework None" "requestContext None None" id]
  by (simp add: override_examples requestContext_simps)

subsection \<open>C8: evaluation without an error\<close>



subsection \<open>C9: the frame\<close>



subsection \<open>C10: a bare string as \<open>allowOrigins\<close>\<close>

text \<open>
  C10, as amended. The configuration gives \<open>allowOrigins\<close> as a bare string that is not
  empty and is neither \<open>*\<close> nor \<open>any\<close>, and the override is inactive. Then for every
  request the handler delegates and \<open>Access-Control-Allow-Origin\<close> is that string,
  verbatim; the request's origin plays no part.
\<close>

theorem bare_origin_string_verbatim:
  assumes "reg = CinnamonCors_new fw (Some opts)"
    and "\<not> devModeOverride reg" and "options this = options reg"
    and "allowOrigins opts = Str s" and "s \<noteq> []" and "s \<noteq> ''*''" and "s \<noteq> ''any''"
  shows "\<exists>c'. beforeRegisterControllers reg this ctx next = Inr (next c') \<and>
           headers (response c') ''access-control-allow-origin'' = Some s"
proof -
  have ao: "allowOrigins (options this) = Str s"
    using assms(1,3,4) by (simp add: new_Some_allowOrigins)
  have run: "beforeRegisterControllers reg this ctx next = Inr (next (evaluated this ctx))"
    using assms(2) by (simp add: handler_closed ao)
  have "headers (response (evaluated this ctx)) ''access-control-allow-origin'' = Some s"
    using assms(5,6,7) by (simp add: evaluated_origin ao origins_few)
  with run show ?thesis by blast
qed

text \<open>
  Witness for C10: \<open>allowOrigins: "https://a.com"\<close>, production mode, a request from
  another origin.
\<close>

theorem bare_origin_string_verbatim_witness:
  "\<exists>c'. beforeRegisterControllers
          (CinnamonCors_new prodFramework (Some (noOptions\<lparr>allowOrigins := Str ''https://a.com''\<rparr>)))
          (CinnamonCors_new prodFramework (Some (noOptions\<lparr>allowOrigins := Str ''https://a.com''\<rparr>)))
          (requestContext (Some ''https://c.com'') None) id = Inr (id c') \<and>
        headers (response c') ''access-control-allow-origin'' = Some ''https://a.com''"
  using bare_origin_string_verbatim [of
      "CinnamonCors_new prodFramework (Some (noOptions\<lparr>allowOrigins := Str ''https://a.com''\<rparr>))"
      prodFramework "noOptions\<lparr>allowOrigins := Str ''https://a.com''\<rparr>"
      "CinnamonCors_new prodFramework (Some (noOptions\<lparr>allowOrigins := Str ''https://a.com''\<rparr>))"
      "''https://a.com''" "requestContext (Some ''https://c.com'') None" id]
  by (simp add: override_examples)

text \<open>
  Counterexample to C10 as stated: the empty string is a bare string other than the
  wildcard markers, and it is falsy. The guard of line 208 skips the block, and the
  header stays at its pre-set \<open>*\<close> instead of the empty string.
\<close>

theorem empty_origin_string_keeps_default:
  "beforeRegisterControllers
     (CinnamonCors_new prodFramework (Some (noOptions\<lparr>allowOrigins := Str []\<rparr>)))
     (CinnamonCors_new prodFramework (Some (noOptions\<lparr>allowOrigins := Str []\<rparr>)))
     (requestContext None None) id =
   Inr (response_set (requestContext None None) ''access-control-allow-origin'' ''*'') \<and>
   headers (response (response_set (requestContext None None) ''access-control-allow-origin'' ''*''))
     ''access-control-allow-origin'' \<noteq> Some []"
  by (simp add: handler_closed override_examples new_Some_allowOrigins new_Some_fields
      noOptions_def evaluated_def policies_def written_def presets_def allowOriginsBlock_def
      contextAfter_def response_set_simps)

subsection \<open>C6: the three policy headers\<close>

text \<open>
  C6, as amended. The override is inactive and the evaluation completes (\<open>allowOrigins\<close>
  is not a list of more than one origin, or the \<open>Origin\<close> or the \<open>Host\<close> header is read as
  a string). Then the handler delegates, and each of \<open>Access-Control-Allow-Headers\<close>,
  \<open>Access-Control-Allow-Methods\<close> and \<open>Access-Control-Expose-Headers\<close> depends on its own
  option only, as \<open>specHeader\<close> says: option not set, or the empty string: the header
  is not written (it is as the response had it on entry); \<open>*\<close> or \<open>any\<close>: exactly \<open>*\<close>;
  a list: its entries joined with a comma and a space, in their order; any other
  string: that string.
\<close>

theorem policy_headers_by_option:
  assumes "reg = CinnamonCors_new fw (Some opts)"
    and "\<not> devModeOverride reg" and "options this = options reg"
    and "\<not> multipleOrigins (allowOrigins opts) \<or>
         get (request ctx) ''Origin'' \<noteq> None \<or> get (request ctx) ''Host'' \<noteq> None"
  shows "\<exists>c'. beforeRegisterControllers reg this ctx next = Inr (next c') \<and>
           headers (response c') ''access-control-allow-headers'' =
             specHeader (allowHeaders opts)
               (headers (response ctx) ''access-control-allow-headers'') \<and>
           headers (response c') ''access-control-allow-methods'' =
             specHeader (allowMethods opts)
               (headers (response ctx) ''access-control-allow-methods'') \<and>
           headers (response c') ''access-control-expose-headers'' =
             specHeader (exposeHeaders opts)
               (headers (response ctx) ''access-control-expose-headers'')"
proof -
  have "\<not> (multipleOrigins (allowOrigins (options this)) \<and> noOrigin ctx)"
    using assms(1,3,4) by (auto simp add: multipleOrigins_new noOrigin_def)
  then have run: "beforeRegisterControllers reg this ctx next = Inr (next (evaluated this ctx))"
    using assms(2) by (simp add: handler_closed)
  show ?thesis
    using run evaluated_policy_headers [of this ctx] assms(1,3)
    by (auto simp add: new_Some_fields)
qed

text \<open>
  Witness for C6, in production mode: \<open>allowHeaders: ["X-A", "X-B"]\<close> gives \<open>X-A, X-B\<close>,
  \<open>allowMethods: "any"\<close> gives \<open>*\<close>, and the bare string \<open>X-C\<close> as \<open>exposeHeaders\<close> is passed
  through.
\<close>

theorem policy_headers_by_option_witness:
  "\<exists>c'. beforeRegisterControllers
          (CinnamonCors_new prodFramework (Some (noOptions\<lparr>allowHeaders := Arr [''X-A'', ''X-B''],
             allowMethods := Str ''any'', exposeHeaders := Str ''X-C''\<rparr>)))
          (CinnamonCors_new prodFramework (Some (noOptions\<lparr>allowHeaders := Arr [''X-A'', ''X-B''],
             allowMethods := Str ''any'', exposeHeaders := Str ''X-C''\<rparr>)))
          (requestContext None None) id = Inr (id c') \<and>
        headers (response c') ''access-control-allow-headers'' = Some ''X-A, X-B'' \<and>
        headers (response c') ''access-control-allow-methods'' = Some ''*'' \<and>
        headers (response c') ''access-control-expose-headers'' = Some ''X-C''"
  using policy_headers_by_option [of
      "CinnamonCors_new prodFramework (Some (noOptions\<lparr>allowHeaders := Arr [''X-A'', ''X-B''],
             allowMethods := Str ''any'', exposeHeaders := Str ''X-C''\<rparr>))"
      prodFramework "noOptions\<lparr>allowHeaders := Arr [''X-A'', ''X-B''],
             allowMethods := Str ''any'', exposeHeaders := Str ''X-C''\<rparr>"
      "CinnamonCors_new prodFramework (Some (noOptions\<lparr>allowHeaders := Arr [''X-A'', ''X-B''],
             allowMethods := Str ''any'', exposeHeaders := Str ''X-C''\<rparr>))"
      "requestContext None None" id]
  by (simp add: override_examples noOptions_def)

text \<open>
  Counterexample to C6 as stated, in production mode. The empty string is a bare string
  that is not a wildcard marker, and \<open>allowHeaders: ""\<close> is not passed through: the guard
  of line 250 is false, only the pre-set origin header is written and
  \<open>Access-Control-Allow-Headers\<close> is omitted. And with two origins, \<open>allowHeaders: "*"\<close> and
  both reads nullish, the handler throws before line 250: the header is not \<open>*\<close>.
\<close>

theorem empty_string_policy_is_omitted:
  "beforeRegisterControllers
     (CinnamonCors_new prodFramework (Some (noOptions\<lparr>allowHeaders := Str []\<rparr>)))
     (CinnamonCors_new prodFramework (Some (noOptions\<lparr>allowHeaders := Str []\<rparr>)))
     (requestContext None None) id =
   Inr (response_set (requestContext None None) ''access-control-allow-origin'' ''*'') \<and>
   headers (response (response_set (requestContext None None) ''access-control-allow-origin'' ''*''))
     ''access-control-allow-headers'' = None \<and>
   beforeRegisterControllers
       (CinnamonCors_new prodFramework (Some (twoOrigins\<lparr>allowHeaders := Str ''*''\<rparr>)))
       (CinnamonCors_new prodFramework (Some (twoOrigins\<lparr>allowHeaders := Str ''*''\<rparr>)))
       (requestContext None None) id =
   Inl (TypeError, response_set (requestContext None None) ''access-control-allow-origin'' ''*'')"
  by (simp add: handler_closed override_examples new_Some_allowOrigins new_Some_fields
      noOptions_def twoOrigins_def evaluated_def policies_def written_def presets_def
      allowOriginsBlock_def contextAfter_def response_set_simps noOrigin_def requestContext_simps)

subsection \<open>C4: empty lists\<close>

text \<open>
  C4, as amended. With the override inactive: an empty list as \<open>allowOrigins\<close> has the
  effect of the option not set, the handler delegates and \<open>Access-Control-Allow-Origin\<close>
  is the pre-set \<open>*\<close>; an empty list as \<open>allowHeaders\<close>, \<open>allowMethods\<close> or \<open>exposeHeaders\<close>
  raises no error either, but has an effect: whenever the evaluation completes (as in
  C8), the handler delegates with that header set to the empty string, the join of no
  entries.
\<close>

theorem empty_list_policies:
  assumes "reg = CinnamonCors_new fw (Some opts)"
    and "\<not> devModeOverride reg" and "options this = options reg"
  shows "(allowOrigins opts = Arr [] \<or> allowOrigins opts = Unset \<longrightarrow>
            (\<exists>c'. beforeRegisterControllers reg this ctx next = Inr (next c') \<and>
               headers (response c') ''access-control-allow-origin'' = Some ''*'')) \<and>
         (\<not> multipleOrigins (allowOrigins opts) \<or>
          get (request ctx) ''Origin'' \<noteq> None \<or> get (request ctx) ''Host'' \<noteq> None \<longrightarrow>
            (\<exists>c'. beforeRegisterControllers reg this ctx next = Inr (next c') \<and>
               (allowHeaders opts = Arr [] \<longrightarrow>
                  headers (response c') ''access-control-allow-headers'' = Some []) \<and>
               (allowMethods opts = Arr [] \<longrightarrow>
                  headers (response c') ''access-control-allow-methods'' = Some []) \<and>
               (exposeHeaders opts = Arr [] \<longrightarrow>
                  headers (response c') ''access-control-expose-headers'' = Some [])))"
proof (intro conjI impI)
  assume a: "allowOrigins opts = Arr [] \<or> allowOrigins opts = Unset"
  then have ao: "allowOrigins (options this) = Arr [] \<or> allowOrigins (options this) = Unset"
    using assms(1,3) by (auto simp add: new_Some_allowOrigins)
  then have run: "beforeRegisterControllers reg this ctx next = Inr (next (evaluated this ctx))"
    using assms(2) by (auto simp add: handler_closed)
  have "headers (response (evaluated this ctx)) ''access-control-allow-origin'' = Some ''*''"
    using ao by (auto simp add: evaluated_origin origins_few presets_headers)
  with run show "\<exists>c'. beforeRegisterControllers reg this ctx next = Inr (next c') \<and>
               headers (response c') ''access-control-allow-origin'' = Some ''*''"
    by blast
next
  assume a: "\<not> multipleOrigins (allowOrigins opts) \<or>
          get (request ctx) ''Origin'' \<noteq> None \<or> get (request ctx) ''Host'' \<noteq> None"
  have "\<not> (multipleOrigins (allowOrigins (options this)) \<and> noOrigin ctx)"
    using assms(1,3) a by (auto simp add: multipleOrigins_new noOrigin_def)
  then have run: "beforeRegisterControllers reg this ctx next = Inr (next (evaluated this ctx))"
    using assms(2) by (simp add: handler_closed)
  show "\<exists>c'. beforeRegisterControllers reg this ctx next = Inr (next c') \<and>
               (allowHeaders opts = Arr [] \<longrightarrow>
                  headers (response c') ''access-control-allow-headers'' = Some []) \<and>
               (allowMethods opts = Arr [] \<longrightarrow>
                  headers (response c') ''access-control-allow-methods'' = Some []) \<and>
               (exposeHeaders opts = Arr [] \<longrightarrow>
                  headers (response c') ''access-control-expose-headers'' = Some [])"
    using run evaluated_policy_headers [of this ctx] assms(1,3)
    by (auto simp add: new_Some_fields)
qed

text \<open>
  Witness for C4: \<open>allowOrigins: []\<close> and \<open>allowHeaders: []\<close> in production mode. The
  origin header is \<open>*\<close> and \<open>Access-Control-Allow-Headers\<close> is present with the empty
  value.
\<close>

theorem empty_list_policies_witness:
  "(\<exists>c'. beforeRegisterControllers
          (CinnamonCors_new prodFramework
             (Some (noOptions\<lparr>allowOrigins := Arr [], allowHeaders := Arr []\<rparr>)))
          (CinnamonCors_new prodFramework
             (Some (noOptions\<lparr>allowOrigins := Arr [], allowHeaders := Arr []\<rparr>)))
          (requestContext None None) id = Inr (id c') \<and>
        headers (response c') ''access-control-allow-origin'' = Some ''*'') \<and>
   (\<exists>c'. beforeRegisterControllers
          (CinnamonCors_new prodFramework
             (Some (noOptions\<lparr>allowOrigins := Arr [], allowHeaders := Arr []\<rparr>)))
          (CinnamonCors_new prodFramework
             (Some (noOptions\<lparr>allowOrigins := Arr [], allowHeaders := Arr []\<rparr>)))
          (requestContext None None) id = Inr (id c') \<and>
        headers (response c') ''access-control-allow-headers'' = Some [])"
  using empty_list_policies [of
      "CinnamonCors_new prodFramework
         (Some (noOptions\<lparr>allowOrigins := Arr [], allowHeaders := Arr []\<rparr>))"
      prodFramework "noOptions\<lparr>allowOrigins := Arr [], allowHeaders := Arr []\<rparr>"
      "CinnamonCors_new prodFramework
         (Some (noOptions\<lparr>allowOrigins := Arr [], allowHeaders := Arr []\<rparr>))"
      "requestContext None None" id]
  by (simp add: override_examples noOptions_def)

text \<open>
  Counterexample to C4 as stated, in production mode: with \<open>allowHeaders: []\<close> the
  response carries \<open>Access-Control-Allow-Headers\<close> with the empty value; with the option
  not set it carries no such header. The empty list is not treated as the option not
  set.
\<close>

theorem empty_list_is_not_unset:
  "headers (response (contextAfter (beforeRegisterControllers
       (CinnamonCors_new prodFramework (Some (noOptions\<lparr>allowHeaders := Arr []\<rparr>)))
       (CinnamonCors_new prodFramework (Some (noOptions\<lparr>allowHeaders := Arr []\<rparr>)))
       (requestContext None None) id))) ''access-control-allow-headers'' = Some [] \<and>
   headers (response (contextAfter (beforeRegisterControllers
       (CinnamonCors_new prodFramework (Some noOptions))
       (CinnamonCors_new prodFramework (Some noOptions))
       (requestContext None None) id))) ''access-control-allow-headers'' = None"
  by (simp add: handler_closed override_examples new_Some_allowOrigins new_Some_fields
      noOptions_def contextAfter_def evaluated_policy_headers requestContext_simps)

end
